theory Spec2Isabelle
  imports Main "HOL-Library.Word" "HOL-Library.Monad_Syntax"
begin

section \<open>Machine integers and the free store\<close>

text \<open>
  The container of \<^verbatim>\<open>Deque.h\<close> is a class template over raw memory: a Map (an array
  of Block pointers) and Blocks of 64 element cells, both obtained from
  \<^verbatim>\<open>::operator new\<close>. The embedding keeps that structure. \<^verbatim>\<open>std::size_t\<close> and
  \<^verbatim>\<open>std::ptrdiff_t\<close> are 64-bit words (an LP64 platform); the unsigned operations are
  the word operations, a \<^verbatim>\<open>ptrdiff_t\<close> is read as two's complement by \<open>sint\<close>.

  The free store holds the Map arrays and the Blocks separately, each under the address
  \<^verbatim>\<open>operator new\<close> returned. A pointer is an address or \<open>None\<close> for \<^verbatim>\<open>nullptr\<close>. A cell
  of a Block is \<open>None\<close> while it is raw storage and \<open>Some v\<close> while it holds a live
  element. Every function that can run into undefined behaviour (a null or dangling
  pointer followed, an index outside an array, a raw cell read) returns an option, and
  \<open>None\<close> stands for the undefined behaviour. Allocation always succeeds and returns an
  address never handed out before.

  Elements are treated the way the \<^verbatim>\<open>Deque<int>\<close> of \<^verbatim>\<open>source.cpp\<close> treats them:
  destroying a raw cell and assigning to a raw cell are harmless, so that whatever the
  model reports as undefined is undefined for every element type.
\<close>

type_synonym size_t = "64 word"
type_synonym ptrdiff_t = "64 word"
type_synonym addr = nat

abbreviation BLOCK_SIZE :: size_t where
  "BLOCK_SIZE \<equiv> 64"

record 'a heap =
  map_store :: "addr \<Rightarrow> addr option list option"
  block_store :: "addr \<Rightarrow> 'a option list option"
  next_addr :: addr

definition empty_heap :: "'a heap" where
  "empty_heap = \<lparr>map_store = (\<lambda>_. None), block_store = (\<lambda>_. None), next_addr = 0\<rparr>"

definition new_map :: "'a heap \<Rightarrow> nat \<Rightarrow> addr \<times> 'a heap" where
  \<comment> \<open>\<^verbatim>\<open>operator new\<close> of n slots followed by the loop that sets each slot to nullptr\<close>
  "new_map h n =
     (next_addr h,
      h\<lparr>map_store := (map_store h)(next_addr h \<mapsto> replicate n None),
        next_addr := Suc (next_addr h)\<rparr>)"

definition new_block :: "'a heap \<Rightarrow> addr \<times> 'a heap" where
  \<comment> \<open>\<^verbatim>\<open>operator new(BLOCK_SIZE * sizeof(value_type))\<close>: 64 raw cells\<close>
  "new_block h =
     (next_addr h,
      h\<lparr>block_store := (block_store h)(next_addr h \<mapsto> replicate (unat BLOCK_SIZE) None),
        next_addr := Suc (next_addr h)\<rparr>)"

definition delete_map :: "'a heap \<Rightarrow> addr option \<Rightarrow> 'a heap option" where
  \<comment> \<open>\<^verbatim>\<open>operator delete\<close> on a Map pointer: nothing for nullptr, undefined when not allocated\<close>
  "delete_map h p =
     (case p of
        None \<Rightarrow> Some h
      | Some m \<Rightarrow>
          (case map_store h m of
             None \<Rightarrow> None
           | Some _ \<Rightarrow> Some (h\<lparr>map_store := (map_store h)(m := None)\<rparr>)))"

definition delete_block :: "'a heap \<Rightarrow> addr option \<Rightarrow> 'a heap option" where
  "delete_block h p =
     (case p of
        None \<Rightarrow> Some h
      | Some a \<Rightarrow>
          (case block_store h a of
             None \<Rightarrow> None
           | Some _ \<Rightarrow> Some (h\<lparr>block_store := (block_store h)(a := None)\<rparr>)))"

definition map_slot :: "'a heap \<Rightarrow> addr option \<Rightarrow> size_t \<Rightarrow> addr option option" where
  \<comment> \<open>reading \<^verbatim>\<open>map[i]\<close>\<close>
  "map_slot h mp i =
     (case mp of
        None \<Rightarrow> None
      | Some m \<Rightarrow>
          (case map_store h m of
             None \<Rightarrow> None
           | Some sl \<Rightarrow> if unat i < length sl then Some (sl ! unat i) else None))"

definition set_map_slot :: "'a heap \<Rightarrow> addr option \<Rightarrow> size_t \<Rightarrow> addr option \<Rightarrow> 'a heap option" where
  \<comment> \<open>writing \<^verbatim>\<open>map[i] = p\<close>\<close>
  "set_map_slot h mp i p =
     (case mp of
        None \<Rightarrow> None
      | Some m \<Rightarrow>
          (case map_store h m of
             None \<Rightarrow> None
           | Some sl \<Rightarrow>
               if unat i < length sl
               then Some (h\<lparr>map_store := (map_store h)(m \<mapsto> sl[unat i := p])\<rparr>)
               else None))"

definition cell_ptr :: "'a heap \<Rightarrow> addr option \<Rightarrow> size_t \<Rightarrow> size_t \<Rightarrow> (addr \<times> nat) option" where
  \<comment> \<open>the cell \<^verbatim>\<open>map[block][offset]\<close> (also written \<^verbatim>\<open>map[block] + offset\<close>), as a
      Block address and an index into it\<close>
  "cell_ptr h mp block offset =
     (case map_slot h mp block of
        None \<Rightarrow> None
      | Some None \<Rightarrow> None
      | Some (Some a) \<Rightarrow>
          (case block_store h a of
             None \<Rightarrow> None
           | Some cs \<Rightarrow> if unat offset < length cs then Some (a, unat offset) else None))"

definition read_cell :: "'a heap \<Rightarrow> addr \<times> nat \<Rightarrow> 'a option" where
  "read_cell h c = (case block_store h (fst c) of None \<Rightarrow> None | Some cs \<Rightarrow> cs ! snd c)"

definition write_cell :: "'a heap \<Rightarrow> addr \<times> nat \<Rightarrow> 'a option \<Rightarrow> 'a heap" where
  \<comment> \<open>placement new and assignment store \<open>Some v\<close>, a destructor call leaves \<open>None\<close>\<close>
  "write_cell h c x =
     (case block_store h (fst c) of
        None \<Rightarrow> h
      | Some cs \<Rightarrow> h\<lparr>block_store := (block_store h)(fst c \<mapsto> cs[snd c := x])\<rparr>)"

fun for_loop :: "nat \<Rightarrow> size_t \<Rightarrow> (size_t \<Rightarrow> 's \<Rightarrow> 's option) \<Rightarrow> 's \<Rightarrow> 's option" where
  \<comment> \<open>\<^verbatim>\<open>for (size_type i = i0; ...; ++i) body\<close> run for a given number of rounds\<close>
  "for_loop 0 i body s = Some s"
| "for_loop (Suc k) i body s =
     (case body i s of None \<Rightarrow> None | Some s' \<Rightarrow> for_loop k (i + 1) body s')"

section \<open>Iterators\<close>

record Iterator =
  it_map_ptr :: "addr option"
  it_block :: size_t
  it_offset :: size_t

record Const_Iterator =
  cit_map_ptr :: "addr option"
  cit_block :: size_t
  cit_offset :: size_t

definition Iterator_deref :: "'a heap \<Rightarrow> Iterator \<Rightarrow> 'a option" where
  \<comment> \<open>\<^verbatim>\<open>operator*\<close>: \<^verbatim>\<open>_map_ptr[_block][_offset]\<close>\<close>
  "Iterator_deref h it =
     do { c \<leftarrow> cell_ptr h (it_map_ptr it) (it_block it) (it_offset it); read_cell h c }"

definition Iterator_inc :: "Iterator \<Rightarrow> Iterator" where
  \<comment> \<open>\<^verbatim>\<open>operator++()\<close>\<close>
  "Iterator_inc it =
     (let offset = it_offset it + 1 in
      if offset = BLOCK_SIZE
      then it\<lparr>it_block := it_block it + 1, it_offset := 0\<rparr>
      else it\<lparr>it_offset := offset\<rparr>)"

definition Iterator_dec :: "Iterator \<Rightarrow> Iterator" where
  \<comment> \<open>\<^verbatim>\<open>operator--()\<close>\<close>
  "Iterator_dec it =
     (if it_offset it = 0
      then it\<lparr>it_block := it_block it - 1, it_offset := BLOCK_SIZE - 1\<rparr>
      else it\<lparr>it_offset := it_offset it - 1\<rparr>)"

definition Iterator_plus :: "Iterator \<Rightarrow> ptrdiff_t \<Rightarrow> Iterator" where
  \<comment> \<open>\<^verbatim>\<open>operator+(difference_type n)\<close>. \<^verbatim>\<open>offset\<close> is a \<^verbatim>\<open>difference_type\<close>, but
      \<^verbatim>\<open>BLOCK_SIZE\<close> is a \<^verbatim>\<open>std::size_t\<close>, so \<^verbatim>\<open>offset / BLOCK_SIZE\<close> and
      \<^verbatim>\<open>offset % BLOCK_SIZE\<close> convert \<^verbatim>\<open>offset\<close> to unsigned; \<^verbatim>\<open>off\<close> is a \<^verbatim>\<open>size_type\<close>
      and \<^verbatim>\<open>off < 0\<close> is an unsigned comparison. The sum \<^verbatim>\<open>_offset + n\<close> is taken in
      two's complement\<close>
  "Iterator_plus it n =
     (let offset = it_offset it + n;
          block = it_block it + offset div BLOCK_SIZE;
          off = offset mod BLOCK_SIZE
      in if off < 0
         then \<lparr>it_map_ptr = it_map_ptr it, it_block = block - 1, it_offset = off + BLOCK_SIZE\<rparr>
         else \<lparr>it_map_ptr = it_map_ptr it, it_block = block, it_offset = off\<rparr>)"

definition Iterator_minus :: "Iterator \<Rightarrow> ptrdiff_t \<Rightarrow> Iterator" where
  \<comment> \<open>\<^verbatim>\<open>operator-(difference_type n)\<close>: \<^verbatim>\<open>*this + (-n)\<close>\<close>
  "Iterator_minus it n = Iterator_plus it (- n)"

definition Iterator_diff :: "Iterator \<Rightarrow> Iterator \<Rightarrow> ptrdiff_t" where
  \<comment> \<open>\<^verbatim>\<open>operator-(const Iterator&)\<close>\<close>
  "Iterator_diff it rhs =
     (let block_diff = it_block it - it_block rhs;
          offset_diff = it_offset it - it_offset rhs
      in block_diff * BLOCK_SIZE + offset_diff)"

definition Iterator_eq :: "Iterator \<Rightarrow> Iterator \<Rightarrow> bool" where
  \<comment> \<open>\<^verbatim>\<open>operator==\<close>\<close>
  "Iterator_eq it rhs \<longleftrightarrow>
     it_map_ptr it = it_map_ptr rhs \<and> it_block it = it_block rhs \<and> it_offset it = it_offset rhs"

definition Const_Iterator_inc :: "Const_Iterator \<Rightarrow> Const_Iterator" where
  \<comment> \<open>\<^verbatim>\<open>Const_Iterator::operator++()\<close> tests \<^verbatim>\<open>>=\<close> where \<^verbatim>\<open>Iterator\<close> tests \<^verbatim>\<open>==\<close>\<close>
  "Const_Iterator_inc it =
     (let offset = cit_offset it + 1 in
      if offset \<ge> BLOCK_SIZE
      then it\<lparr>cit_block := cit_block it + 1, cit_offset := 0\<rparr>
      else it\<lparr>cit_offset := offset\<rparr>)"

definition Const_Iterator_plus :: "Const_Iterator \<Rightarrow> ptrdiff_t \<Rightarrow> Const_Iterator" where
  "Const_Iterator_plus it n =
     (let offset = cit_offset it + n;
          block = cit_block it + offset div BLOCK_SIZE;
          off = offset mod BLOCK_SIZE
      in if off < 0
         then \<lparr>cit_map_ptr = cit_map_ptr it, cit_block = block - 1, cit_offset = off + BLOCK_SIZE\<rparr>
         else \<lparr>cit_map_ptr = cit_map_ptr it, cit_block = block, cit_offset = off\<rparr>)"

definition Const_Iterator_minus :: "Const_Iterator \<Rightarrow> ptrdiff_t \<Rightarrow> Const_Iterator" where
  "Const_Iterator_minus it n = Const_Iterator_plus it (- n)"

definition Const_Iterator_eq :: "Const_Iterator \<Rightarrow> Const_Iterator \<Rightarrow> bool" where
  "Const_Iterator_eq it rhs \<longleftrightarrow>
     cit_map_ptr it = cit_map_ptr rhs \<and> cit_block it = cit_block rhs \<and> cit_offset it = cit_offset rhs"

section \<open>The container\<close>

record Deque =
  m_map :: "addr option"
  m_size :: size_t
  m_map_size :: size_t
  m_start_block :: size_t
  m_start_offset :: size_t
  m_finish_block :: size_t
  m_finish_offset :: size_t

text \<open>
  A member function works on the free store and on the fields of its object, so it is
  a function on pairs of a heap and a \<open>Deque\<close> record. The two exceptions the class
  throws are values of \<open>outcome\<close>, which carry the state the throw leaves behind.
\<close>

type_synonym 'a state = "'a heap \<times> Deque"

datatype exn = out_of_range

datatype ('v, 's) outcome = Returns 'v 's | Throws exn 's | Undefined

subsection \<open>Map and Block lifecycle\<close>

definition allocate_map :: "size_t \<Rightarrow> 'a state \<Rightarrow> 'a state" where
  "allocate_map n_blocks = (\<lambda>(h, d).
     let n = (if n_blocks < 8 then 8 else n_blocks);
         (m, h') = new_map h (unat n)
     in (h', d\<lparr>m_map := Some m, m_map_size := n\<rparr>))"

definition allocate_block :: "size_t \<Rightarrow> 'a state \<Rightarrow> 'a state option" where
  "allocate_block index = (\<lambda>(h, d).
     let (a, h') = new_block h
     in do { h'' \<leftarrow> set_map_slot h' (m_map d) index (Some a); Some (h'', d) })"

definition deallocate_block :: "size_t \<Rightarrow> 'a state \<Rightarrow> 'a state option" where
  "deallocate_block index = (\<lambda>(h, d).
     do { p \<leftarrow> map_slot h (m_map d) index;
          h' \<leftarrow> delete_block h p;
          h'' \<leftarrow> set_map_slot h' (m_map d) index None;
          Some (h'', d) })"

definition reallocate_map :: "bool \<Rightarrow> 'a state \<Rightarrow> 'a state option" where
  "reallocate_map add_to_front = (\<lambda>(h, d).
     let old_block_count = m_finish_block d - m_start_block d + 1;
         new_map_size = max 8 (m_map_size d * 2);
         (new_map_ptr, h1) = new_map h (unat new_map_size);
         new_start_block =
           (if add_to_front then new_map_size div 4
            else new_map_size div 2 - old_block_count div 2)
     in do { h2 \<leftarrow> for_loop (unat old_block_count) 0
                     (\<lambda>i hh. do { p \<leftarrow> map_slot hh (m_map d) (m_start_block d + i);
                                  set_map_slot hh (Some new_map_ptr) (new_start_block + i) p })
                     h1;
             h3 \<leftarrow> delete_map h2 (m_map d);
             Some (h3, d\<lparr>m_map := Some new_map_ptr,
                         m_start_block := new_start_block,
                         m_finish_block := new_start_block + old_block_count - 1,
                         m_map_size := new_map_size\<rparr>) })"

definition resize_map :: "size_t \<Rightarrow> 'a state \<Rightarrow> 'a state option" where
  "resize_map new_map_size = (\<lambda>(h, d).
     let (new_map_ptr, h1) = new_map h (unat new_map_size)
     in do { h2 \<leftarrow> delete_map h1 (m_map d);
             Some (h2, d\<lparr>m_map := Some new_map_ptr, m_map_size := new_map_size\<rparr>) })"

definition element :: "size_t \<Rightarrow> size_t \<Rightarrow> 'a state \<Rightarrow> 'a option" where
  \<comment> \<open>the value of \<^verbatim>\<open>_map[block][offset]\<close>\<close>
  "element block offset = (\<lambda>(h, d).
     do { c \<leftarrow> cell_ptr h (m_map d) block offset; read_cell h c })"

definition construct_at :: "size_t \<Rightarrow> size_t \<Rightarrow> 'a \<Rightarrow> 'a state \<Rightarrow> 'a state option" where
  \<comment> \<open>placement new at \<^verbatim>\<open>_map[block] + offset\<close>, and assignment to \<^verbatim>\<open>_map[block][offset]\<close>\<close>
  "construct_at block offset v = (\<lambda>(h, d).
     do { c \<leftarrow> cell_ptr h (m_map d) block offset; Some (write_cell h c (Some v), d) })"

definition destroy_at :: "size_t \<Rightarrow> size_t \<Rightarrow> 'a state \<Rightarrow> 'a state option" where
  \<comment> \<open>\<^verbatim>\<open>std::destroy_at(&_map[block][offset])\<close>\<close>
  "destroy_at block offset = (\<lambda>(h, d).
     do { c \<leftarrow> cell_ptr h (m_map d) block offset; Some (write_cell h c None, d) })"

definition destroy_all :: "'a state \<Rightarrow> 'a state option" where
  "destroy_all = (\<lambda>(h, d).
     do { (h1, d1) \<leftarrow>
            (if m_map d \<noteq> None
             then do { (h', d') \<leftarrow> for_loop (unat (m_map_size d)) 0
                                   (\<lambda>i s. do { p \<leftarrow> map_slot (fst s) (m_map (snd s)) i;
                                               s' \<leftarrow> (if p \<noteq> None
                                                      then for_loop (unat BLOCK_SIZE) 0 (\<lambda>j. destroy_at i j) s
                                                      else Some s);
                                               deallocate_block i s' })
                                   (h, d);
                       h'' \<leftarrow> delete_map h' (m_map d');
                       Some (h'', d'\<lparr>m_map := None\<rparr>) }
             else Some (h, d));
          Some (h1, d1\<lparr>m_map_size := 0, m_start_block := 0, m_start_offset := 0,
                      m_finish_block := 0, m_finish_offset := 0\<rparr>) })"

subsection \<open>Construction\<close>

definition raw_object :: "size_t \<Rightarrow> Deque" where
  \<comment> \<open>an object before its constructor ran; the argument is whatever its \<^verbatim>\<open>_size\<close> holds\<close>
  "raw_object indeterminate =
     \<lparr>m_map = None, m_size = indeterminate, m_map_size = 0, m_start_block = 0,
      m_start_offset = 0, m_finish_block = 0, m_finish_offset = 0\<rparr>"

definition Deque_default :: "'a heap \<Rightarrow> 'a state option" where
  \<comment> \<open>\<^verbatim>\<open>Deque()\<close>\<close>
  "Deque_default h =
     (let (h1, d1) = allocate_map 8 (h, raw_object 0);
          d2 = d1\<lparr>m_start_block := m_map_size d1 div 2, m_start_offset := 0\<rparr>;
          d3 = d2\<lparr>m_finish_block := m_start_block d2, m_finish_offset := 0, m_size := 0\<rparr>
      in allocate_block (m_start_block d3) (h1, d3))"

definition Deque_move :: "size_t \<Rightarrow> Deque \<Rightarrow> Deque \<times> Deque" where
  \<comment> \<open>\<^verbatim>\<open>Deque(Deque&& other)\<close>: the new object and \<^verbatim>\<open>other\<close> afterwards. The member
      initializer list has no entry for \<^verbatim>\<open>_size\<close>, and the body does not touch
      \<^verbatim>\<open>other._size\<close>\<close>
  "Deque_move indeterminate other =
     ((raw_object indeterminate)
        \<lparr>m_map := m_map other, m_map_size := m_map_size other,
         m_start_block := m_start_block other, m_start_offset := m_start_offset other,
         m_finish_block := m_finish_block other, m_finish_offset := m_finish_offset other\<rparr>,
      other\<lparr>m_map := None, m_map_size := 0, m_start_block := 0, m_start_offset := 0,
            m_finish_block := 0, m_finish_offset := 0\<rparr>)"

subsection \<open>Capacity and element access\<close>

definition Deque_size :: "Deque \<Rightarrow> size_t" where
  "Deque_size d = m_size d"

definition Deque_empty :: "Deque \<Rightarrow> bool" where
  "Deque_empty d \<longleftrightarrow> m_size d = 0"


definition op_index :: "size_t \<Rightarrow> 'a state \<Rightarrow> 'a option" where
  \<comment> \<open>\<^verbatim>\<open>operator[](index)\<close>\<close>
  "op_index index = (\<lambda>(h, d).
     let offset = m_start_offset d + index;
         block = m_start_block d + offset div BLOCK_SIZE;
         block_offset = offset mod BLOCK_SIZE
     in element block block_offset (h, d))"

definition at :: "size_t \<Rightarrow> 'a state \<Rightarrow> ('a, 'a state) outcome" where
  "at index s =
     (if index \<ge> m_size (snd s) then Throws out_of_range s
      else (case op_index index s of None \<Rightarrow> Undefined | Some v \<Rightarrow> Returns v s))"

definition Deque_front :: "'a state \<Rightarrow> 'a option" where
  "Deque_front = (\<lambda>(h, d). element (m_start_block d) (m_start_offset d) (h, d))"

definition Deque_back :: "'a state \<Rightarrow> 'a option" where
  "Deque_back = (\<lambda>(h, d).
     let ob = (if m_finish_offset d = 0 then m_finish_block d - 1 else m_finish_block d);
         oo = (if m_finish_offset d = 0 then BLOCK_SIZE - 1 else m_finish_offset d - 1)
     in element ob oo (h, d))"

definition Deque_begin :: "Deque \<Rightarrow> Iterator" where
  "Deque_begin d =
     \<lparr>it_map_ptr = m_map d, it_block = m_start_block d, it_offset = m_start_offset d\<rparr>"

definition Deque_end :: "Deque \<Rightarrow> Iterator" where
  "Deque_end d =
     \<lparr>it_map_ptr = m_map d, it_block = m_finish_block d, it_offset = m_finish_offset d\<rparr>"

subsection \<open>Mutators\<close>

definition push_back :: "'a \<Rightarrow> 'a state \<Rightarrow> 'a state option" where
  "push_back v = (\<lambda>(h, d).
     do { (h1, d1) \<leftarrow>
            (if m_finish_offset d = BLOCK_SIZE
             then do { (h', d') \<leftarrow> (if m_finish_block d + 1 \<ge> m_map_size d
                                    then reallocate_map False (h, d) else Some (h, d));
                       p \<leftarrow> map_slot h' (m_map d') (m_finish_block d' + 1);
                       (h'', d'') \<leftarrow> (if p = None then allocate_block (m_finish_block d' + 1) (h', d')
                                      else Some (h', d'));
                       Some (h'', d''\<lparr>m_finish_block := m_finish_block d'' + 1,
                                     m_finish_offset := 0\<rparr>) }
             else Some (h, d));
          (h2, d2) \<leftarrow> construct_at (m_finish_block d1) (m_finish_offset d1) v (h1, d1);
          Some (h2, d2\<lparr>m_finish_offset := m_finish_offset d2 + 1, m_size := m_size d2 + 1\<rparr>) })"

definition push_front :: "'a \<Rightarrow> 'a state \<Rightarrow> 'a state option" where
  "push_front v = (\<lambda>(h, d).
     do { (h1, d1) \<leftarrow>
            (if m_start_offset d = 0
             then do { (h', d') \<leftarrow> (if m_start_block d = 0
                                    then reallocate_map True (h, d) else Some (h, d));
                       p \<leftarrow> map_slot h' (m_map d') (m_start_block d' - 1);
                       (h'', d'') \<leftarrow> (if p = None then allocate_block (m_start_block d' - 1) (h', d')
                                      else Some (h', d'));
                       Some (h'', d''\<lparr>m_start_block := m_start_block d'' - 1,
                                     m_start_offset := BLOCK_SIZE\<rparr>) }
             else Some (h, d));
          (h2, d2) \<leftarrow> construct_at (m_start_block d1) (m_start_offset d1 - 1) v
                        (h1, d1\<lparr>m_start_offset := m_start_offset d1 - 1\<rparr>);
          Some (h2, d2\<lparr>m_size := m_size d2 + 1\<rparr>) })"

definition pop_back :: "'a state \<Rightarrow> (unit, 'a state) outcome" where
  "pop_back = (\<lambda>(h, d).
     if Deque_empty d then Throws out_of_range (h, d)
     else
       let d1 = (if m_finish_offset d = 0
                 then d\<lparr>m_finish_block := m_finish_block d - 1,
                        m_finish_offset := BLOCK_SIZE - 1\<rparr>
                 else d\<lparr>m_finish_offset := m_finish_offset d - 1\<rparr>)
       in (case destroy_at (m_finish_block d1) (m_finish_offset d1) (h, d1) of
             None \<Rightarrow> Undefined
           | Some (h2, d2) \<Rightarrow> Returns () (h2, d2\<lparr>m_size := m_size d2 - 1\<rparr>)))"

definition pop_front :: "'a state \<Rightarrow> (unit, 'a state) outcome" where
  "pop_front = (\<lambda>(h, d).
     if Deque_empty d then Throws out_of_range (h, d)
     else
       (case do { (h1, d1) \<leftarrow> destroy_at (m_start_block d) (m_start_offset d) (h, d);
                  let d2 = d1\<lparr>m_start_offset := m_start_offset d1 + 1\<rparr>;
                  if m_start_offset d2 = BLOCK_SIZE
                  then do { (h3, d3) \<leftarrow> deallocate_block (m_start_block d2) (h1, d2);
                            Some (h3, d3\<lparr>m_start_block := m_start_block d3 + 1,
                                        m_start_offset := 0\<rparr>) }
                  else Some (h1, d2) } of
          None \<Rightarrow> Undefined
        | Some (h4, d4) \<Rightarrow> Returns () (h4, d4\<lparr>m_size := m_size d4 - 1\<rparr>)))"

definition clear_destroy_step ::
  "size_t \<Rightarrow> 'a state \<times> size_t \<times> size_t \<Rightarrow> ('a state \<times> size_t \<times> size_t) option" where
  \<comment> \<open>one round of the first loop of \<^verbatim>\<open>clear()\<close>, on the object and the locals
      \<^verbatim>\<open>block\<close> and \<^verbatim>\<open>offset\<close>\<close>
  "clear_destroy_step i = (\<lambda>(s, block, offset).
     do { s' \<leftarrow> destroy_at block offset s;
          Some (if offset + 1 = BLOCK_SIZE then (s', block + 1, 0)
                else (s', block, offset + 1)) })"

definition clear_free_step :: "size_t \<Rightarrow> 'a state \<Rightarrow> 'a state option" where
  \<comment> \<open>one round of the second loop of \<^verbatim>\<open>clear()\<close>\<close>
  "clear_free_step i s =
     do { p \<leftarrow> map_slot (fst s) (m_map (snd s)) i;
          if p \<noteq> None then deallocate_block i s else Some s }"

definition clear :: "'a state \<Rightarrow> 'a state option" where
  "clear = (\<lambda>(h, d).
     if Deque_empty d then Some (h, d)
     else
       do { (s1, block, offset) \<leftarrow>
              for_loop (unat (m_size d)) 0 clear_destroy_step
                ((h, d), m_start_block d, m_start_offset d);
            (h2, d2) \<leftarrow> for_loop (unat (m_map_size (snd s1))) 0 clear_free_step s1;
            let center = m_map_size d2 div 2;
                (h3, d3) = allocate_map center (h2, d2)
            in Some (h3, d3\<lparr>m_start_block := center, m_finish_block := center,
                           m_start_offset := 0, m_finish_offset := 0, m_size := 0\<rparr>) })"

subsection \<open>Assignment\<close>

text \<open>
  Both assignment operators are modelled for two distinct objects (the branch the
  self-assignment test \<^verbatim>\<open>this != &other\<close> lets through).
\<close>

definition copy_assign :: "'a heap \<Rightarrow> Deque \<Rightarrow> Deque \<Rightarrow> ('a heap \<times> Deque \<times> Deque) option" where
  \<comment> \<open>\<^verbatim>\<open>operator=(const Deque& other)\<close>: the heap, \<^verbatim>\<open>*this\<close> and \<^verbatim>\<open>other\<close> afterwards\<close>
  "copy_assign h this other =
     do { s1 \<leftarrow> destroy_all (h, this);
          (h3, this3) \<leftarrow>
            for_loop (unat (m_size other)) 0
              (\<lambda>i s. do { v \<leftarrow> op_index i (fst s, other); push_back v s })
              (allocate_map (m_map_size other) s1);
          Some (h3, this3, other) }"

definition move_assign :: "'a heap \<Rightarrow> Deque \<Rightarrow> Deque \<Rightarrow> ('a heap \<times> Deque \<times> Deque) option" where
  \<comment> \<open>\<^verbatim>\<open>operator=(Deque&& other)\<close>\<close>
  "move_assign h this other =
     do { s1 \<leftarrow> clear (h, this);
          (h2, this2) \<leftarrow> destroy_all s1;
          Some (h2,
                this2\<lparr>m_map := m_map other, m_map_size := m_map_size other,
                      m_start_block := m_start_block other, m_start_offset := m_start_offset other,
                      m_finish_block := m_finish_block other, m_finish_offset := m_finish_offset other,
                      m_size := m_size other\<rparr>,
                other\<lparr>m_map := None, m_map_size := 0, m_start_block := 0, m_start_offset := 0,
                      m_finish_block := 0, m_finish_offset := 0, m_size := 0\<rparr>) }"

subsection \<open>The invariants the specification states\<close>

definition size_equation :: "Deque \<Rightarrow> bool" where
  \<comment> \<open>\<^verbatim>\<open>size == (finish_block - start_block) * BLOCK_SIZE + finish_offset - start_offset\<close>,
      in the arithmetic of \<^verbatim>\<open>size_t\<close>\<close>
  "size_equation d \<longleftrightarrow>
     m_size d = (m_finish_block d - m_start_block d) * BLOCK_SIZE + m_finish_offset d - m_start_offset d"

definition block_allocated :: "'a state \<Rightarrow> nat \<Rightarrow> bool" where
  \<comment> \<open>the Map slot of a block index owns a Block\<close>
  "block_allocated s b =
     (case map_slot (fst s) (m_map (snd s)) (of_nat b) of
        Some (Some a) \<Rightarrow> block_store (fst s) a \<noteq> None
      | _ \<Rightarrow> False)"

definition live_range_allocated :: "'a state \<Rightarrow> bool" where
  \<comment> \<open>every block index in \<^verbatim>\<open>[start_block, finish_block]\<close> owns a Block\<close>
  "live_range_allocated s \<longleftrightarrow>
     list_all (block_allocated s)
       [unat (m_start_block (snd s)) ..< Suc (unat (m_finish_block (snd s)))]"


subsection \<open>Growth by \<^verbatim>\<open>push_back\<close>\<close>




section \<open>Facts about the free store\<close>

lemma write_cell_maps [simp]:
  "map_store (write_cell h c x) = map_store h" "next_addr (write_cell h c x) = next_addr h"
  by (simp_all add: write_cell_def split: option.splits)


lemma write_cell_other:
  "b \<noteq> fst c \<Longrightarrow> block_store (write_cell h c x) b = block_store h b"
  by (simp add: write_cell_def split: option.splits)

lemma write_cell_dom:
  "block_store (write_cell h c x) b = None \<longleftrightarrow> block_store h b = None"
  by (simp add: write_cell_def split: option.splits)

lemma cell_ptr_SomeD:
  assumes "cell_ptr h mp block offset = Some c"
  shows "\<exists>m sl cs. mp = Some m \<and> map_store h m = Some sl \<and> unat block < length sl
           \<and> sl ! unat block = Some (fst c) \<and> block_store h (fst c) = Some cs
           \<and> snd c = unat offset \<and> unat offset < length cs"
  using assms
  by (auto simp add: cell_ptr_def map_slot_def split: option.splits if_splits)

lemma map_slot_cong:
  assumes "map_store h' = map_store h"
  shows "map_slot h' mp i = map_slot h mp i"
  unfolding map_slot_def assms ..




lemma destroy_at_frame:
  assumes "destroy_at block offset (h, d) = Some (h', d')"
  shows "d' = d" and "map_store h' = map_store h" and "next_addr h' = next_addr h"
    and "\<exists>c. cell_ptr h (m_map d) block offset = Some c \<and> h' = write_cell h c None"
  using assms by (auto simp add: destroy_at_def split: bind_splits)

lemma allocate_map_eq:
  "allocate_map n (h, d) =
     (h\<lparr>map_store := (map_store h)(next_addr h \<mapsto> replicate (unat (max 8 n)) None),
        next_addr := Suc (next_addr h)\<rparr>,
      d\<lparr>m_map := Some (next_addr h), m_map_size := max 8 n\<rparr>)"
  by (simp add: allocate_map_def new_map_def max_def not_less)

lemma Deque_default_eq:
  "Deque_default h =
     Some (h\<lparr>map_store := (map_store h)(next_addr h \<mapsto> (replicate 8 None)[4 := Some (Suc (next_addr h))]),
             block_store := (block_store h)(Suc (next_addr h) \<mapsto> replicate 64 None),
             next_addr := Suc (Suc (next_addr h))\<rparr>,
           \<lparr>m_map = Some (next_addr h), m_size = 0, m_map_size = 8, m_start_block = 4,
            m_start_offset = 0, m_finish_block = 4, m_finish_offset = 0\<rparr>)"
  by (simp add: Deque_default_def allocate_map_eq allocate_block_def new_block_def
      set_map_slot_def raw_object_def)


section \<open>Walking with an iterator\<close>

lemma of_nat_mod64_succ_eq: "(of_nat (k mod 64) + 1 = (64 :: size_t)) \<longleftrightarrow> k mod 64 = 63"
proof -
  have "unat (of_nat (k mod 64) + 1 :: size_t) = k mod 64 + 1"
    by (simp add: unat_word_ariths unat_of_nat)
  then show ?thesis
    by (auto simp add: word_unat_eq_iff)
qed

lemma mod64_wrap: "k mod 64 = 63 \<Longrightarrow> Suc k mod 64 = 0 \<and> Suc k div 64 = Suc (k div 64)" for k :: nat
  by (simp add: mod_Suc div_Suc)

lemma mod64_step: "k mod 64 \<noteq> 63 \<Longrightarrow> Suc k mod 64 = Suc (k mod 64) \<and> Suc k div 64 = k div 64" for k :: nat
  by (simp add: mod_Suc div_Suc)

lemma Iterator_inc_at:
  "Iterator_inc \<lparr>it_map_ptr = m, it_block = b + of_nat (k div 64), it_offset = of_nat (k mod 64)\<rparr>
   = \<lparr>it_map_ptr = m, it_block = b + of_nat (Suc k div 64), it_offset = of_nat (Suc k mod 64)\<rparr>"
proof (cases "k mod 64 = 63")
  case True
  have "of_nat (k mod 64) + 1 = (64 :: size_t)"
    using True of_nat_mod64_succ_eq [of k] by blast
  then have "Iterator_inc \<lparr>it_map_ptr = m, it_block = b + of_nat (k div 64), it_offset = of_nat (k mod 64)\<rparr>
    = \<lparr>it_map_ptr = m, it_block = b + of_nat (k div 64) + 1, it_offset = 0\<rparr>"
    unfolding Iterator_inc_def Let_def by simp
  moreover have "b + of_nat (k div 64) + 1 = b + (of_nat (Suc k div 64) :: size_t)"
    using mod64_wrap [OF True] by (simp only: of_nat_Suc) simp
  moreover have "(of_nat (Suc k mod 64) :: size_t) = 0"
    using mod64_wrap [OF True] by simp
  ultimately show ?thesis by simp
next
  case False
  have "of_nat (k mod 64) + 1 \<noteq> (64 :: size_t)"
    using False of_nat_mod64_succ_eq [of k] by blast
  then have "Iterator_inc \<lparr>it_map_ptr = m, it_block = b + of_nat (k div 64), it_offset = of_nat (k mod 64)\<rparr>
    = \<lparr>it_map_ptr = m, it_block = b + of_nat (k div 64), it_offset = of_nat (k mod 64) + 1\<rparr>"
    unfolding Iterator_inc_def Let_def by simp
  moreover have "(of_nat (Suc k mod 64) :: size_t) = of_nat (k mod 64) + 1" "Suc k div 64 = k div 64"
    using mod64_step [OF False] by simp_all
  ultimately show ?thesis by simp
qed

lemma Iterator_inc_funpow:
  "(Iterator_inc ^^ n) \<lparr>it_map_ptr = m, it_block = b + of_nat (k div 64), it_offset = of_nat (k mod 64)\<rparr>
   = \<lparr>it_map_ptr = m, it_block = b + of_nat ((k + n) div 64), it_offset = of_nat ((k + n) mod 64)\<rparr>"
proof (induction n)
  case 0
  show ?case by simp
next
  case (Suc n)
  show ?case
    by (simp only: funpow.simps o_apply Suc.IH Iterator_inc_at add_Suc_right)
qed

lemma Iterator_inc_funpow_begin:
  assumes "unat offset < 64"
  shows "(Iterator_inc ^^ n) \<lparr>it_map_ptr = m, it_block = b, it_offset = offset\<rparr>
   = \<lparr>it_map_ptr = m, it_block = b + of_nat ((unat offset + n) div 64),
      it_offset = of_nat ((unat offset + n) mod 64)\<rparr>"
  using Iterator_inc_funpow [of n m b "unat offset"] assms by simp

lemma index_div_mod:
  fixes offset index :: size_t
  assumes "unat offset + unat index < 2 ^ 64"
  shows "(offset + index) div 64 = of_nat ((unat offset + unat index) div 64)"
    and "(offset + index) mod 64 = of_nat ((unat offset + unat index) mod 64)"
proof -
  have u: "unat (offset + index) = unat offset + unat index"
    using assms by (simp add: unat_add_lem [THEN iffD1])
  have d: "unat ((offset + index) div 64) = (unat offset + unat index) div 64"
    by (simp add: unat_div u)
  have "(offset + index) div 64 = of_nat (unat ((offset + index) div 64))"
    by simp
  then show "(offset + index) div 64 = of_nat ((unat offset + unat index) div 64)"
    by (simp only: d)
  have m: "unat ((offset + index) mod 64) = (unat offset + unat index) mod 64"
    by (simp add: unat_mod u)
  have "(offset + index) mod 64 = of_nat (unat ((offset + index) mod 64))"
    by simp
  then show "(offset + index) mod 64 = of_nat ((unat offset + unat index) mod 64)"
    by (simp only: m)
qed

section \<open>Indexed access\<close>

text \<open>
  The index translation. For an index below \<open>size()\<close>, \<^verbatim>\<open>at(i)\<close> does not throw and
  yields what \<^verbatim>\<open>operator[](i)\<close> yields; \<^verbatim>\<open>operator[](i)\<close> reads the cell at block
  \<open>start_block + (start_offset + i) / 64\<close> and offset \<open>(start_offset + i) % 64\<close>; and
  that cell is the one a front-to-back traversal reaches after \<open>i\<close> steps: the cell
  \<^verbatim>\<open>begin()\<close> points at after \<open>i\<close> applications of \<^verbatim>\<open>operator++\<close>, whatever
  \<open>start_block\<close> and \<open>start_offset\<close> are. The start offset lies inside its block and the
  size leaves room for \<open>start_offset + i\<close> in a \<^verbatim>\<open>size_t\<close>. These are equations between
  reads: an access the C++ leaves undefined is undefined on both sides. Whether the
  read yields an element depends on what \<open>size()\<close> counts, which is taken up below.
\<close>

theorem index_is_logical_position:
  assumes "index < Deque_size d" and "m_start_offset d < BLOCK_SIZE"
    and "unat (Deque_size d) + 64 \<le> 2 ^ 64"
  shows "at index (h, d) = (case op_index index (h, d) of None \<Rightarrow> Undefined | Some v \<Rightarrow> Returns v (h, d)) \<and>
     op_index index (h, d) =
       element (m_start_block d + (m_start_offset d + index) div BLOCK_SIZE)
         ((m_start_offset d + index) mod BLOCK_SIZE) (h, d) \<and>
     op_index index (h, d) = Iterator_deref h ((Iterator_inc ^^ unat index) (Deque_begin d))"
proof (intro conjI)
  from assms(1) show "at index (h, d) =
      (case op_index index (h, d) of None \<Rightarrow> Undefined | Some v \<Rightarrow> Returns v (h, d))"
    by (auto simp add: at_def Deque_size_def)
  show eq: "op_index index (h, d) =
       element (m_start_block d + (m_start_offset d + index) div BLOCK_SIZE)
         ((m_start_offset d + index) mod BLOCK_SIZE) (h, d)"
    by (simp add: op_index_def Let_def)
  have so: "unat (m_start_offset d) < 64"
    using assms(2) by (simp add: word_less_nat_alt)
  have "unat index < unat (Deque_size d)"
    using assms(1) by (simp add: word_less_nat_alt)
  with so assms(3) have fit: "unat (m_start_offset d) + unat index < 2 ^ 64"
    by simp
  have "(Iterator_inc ^^ unat index) (Deque_begin d) =
      \<lparr>it_map_ptr = m_map d,
       it_block = m_start_block d + (m_start_offset d + index) div BLOCK_SIZE,
       it_offset = (m_start_offset d + index) mod BLOCK_SIZE\<rparr>"
    unfolding Deque_begin_def Iterator_inc_funpow_begin [OF so] index_div_mod [OF fit] ..
  then show "op_index index (h, d) = Iterator_deref h ((Iterator_inc ^^ unat index) (Deque_begin d))"
    by (simp add: eq element_def Iterator_deref_def)
qed

text \<open>
  The container of \<^verbatim>\<open>source.cpp\<close>, holding 3 5 4 6 9: index 2 is the 4.
\<close>

lemma source_cpp_probe:
  "map_option (\<lambda>(h, d). (Deque_size d, m_start_offset d, op_index 2 (h, d)))
     (Deque_default (empty_heap :: int heap) \<bind> push_back 3 \<bind> push_back 5 \<bind> push_back 4
        \<bind> push_back 6 \<bind> push_back 9)
   = Some (5, 0, Some 4)"
  by code_simp

theorem index_is_logical_position_witness:
  "\<exists>h d. Deque_default (empty_heap :: int heap) \<bind> push_back 3 \<bind> push_back 5 \<bind> push_back 4
            \<bind> push_back 6 \<bind> push_back 9 = Some (h, d) \<and>
     2 < Deque_size d \<and> m_start_offset d < BLOCK_SIZE \<and> unat (Deque_size d) + 64 \<le> 2 ^ 64 \<and>
     at 2 (h, d) = Returns 4 (h, d) \<and>
     Iterator_deref h ((Iterator_inc ^^ 2) (Deque_begin d)) = Some 4"
proof -
  from source_cpp_probe obtain h d
    where s: "Deque_default (empty_heap :: int heap) \<bind> push_back 3 \<bind> push_back 5 \<bind> push_back 4
            \<bind> push_back 6 \<bind> push_back 9 = Some (h, d)"
      and v: "Deque_size d = 5" "m_start_offset d = 0" "op_index 2 (h, d) = Some 4"
    by auto
  have hyps: "2 < Deque_size d" "m_start_offset d < BLOCK_SIZE" "unat (Deque_size d) + 64 \<le> 2 ^ 64"
    by (simp_all add: v)
  note T = index_is_logical_position [OF hyps, of h]
  have "at 2 (h, d) = Returns 4 (h, d)"
    by (simp add: T [THEN conjunct1] v)
  moreover have "Iterator_deref h ((Iterator_inc ^^ 2) (Deque_begin d)) = Some 4"
    using T [THEN conjunct2, THEN conjunct2, symmetric] by (simp add: v)
  ultimately show ?thesis
    using s hyps by simp
qed

lemma index_after_copy_assign_probe:
  "do { (h, a) \<leftarrow> Deque_default (empty_heap :: int heap) \<bind> push_back 1;
        (h0, b) \<leftarrow> Deque_default h;
        (h', this, other) \<leftarrow> copy_assign h0 a b;
        Some (op_index 0 (h, a), Deque_size a, Deque_size other, Deque_size this,
              op_index 0 (h', this)) }
   = Some (Some 1, 1, 0, 1, None)"
  by code_simp

text \<open>
  Claim C1 says that for every container and every index below \<open>size()\<close>, \<^verbatim>\<open>at(i)\<close>
  and \<^verbatim>\<open>operator[](i)\<close> return the element at the computed slot, the \<open>i\<close>-th in
  front-to-back order. With \<open>a\<close> holding the one element 1, \<open>a.at(0)\<close> returns 1. After
  the copy assignment \<^verbatim>\<open>a = b\<close> from a default-constructed \<open>b\<close>, \<open>a.size()\<close> is still 1,
  so index 0 is below it and \<^verbatim>\<open>at(0)\<close> does not throw; the slot it computes is block 0
  of the new Map, which is null, and the read through it is undefined. The same holds
  for \<open>a\<close> after it has been the source of a move construction: its size is still 1
  and its Map pointer is null.
\<close>

theorem index_below_size_undefined:
  "\<exists>h a h0 b h' this other.
     Deque_default (empty_heap :: int heap) \<bind> push_back 1 = Some (h, a) \<and>
     Deque_size a = 1 \<and> at 0 (h, a) = Returns 1 (h, a) \<and>
     Deque_default h = Some (h0, b) \<and> Deque_size b = 0 \<and>
     copy_assign h0 a b = Some (h', this, other) \<and>
     Deque_size this = 1 \<and> op_index 0 (h', this) = None \<and> at 0 (h', this) = Undefined \<and>
     (\<forall>indeterminate.
        Deque_size (snd (Deque_move indeterminate a)) = 1 \<and>
        op_index 0 (h, snd (Deque_move indeterminate a)) = None \<and>
        at 0 (h, snd (Deque_move indeterminate a)) = Undefined)"
proof -
  from index_after_copy_assign_probe obtain h a h0 b h' this other
    where s: "Deque_default (empty_heap :: int heap) \<bind> push_back 1 = Some (h, a)"
      and s0: "Deque_default h = Some (h0, b)"
      and c: "copy_assign h0 a b = Some (h', this, other)"
      and v: "op_index 0 (h, a) = Some 1" "Deque_size a = 1" "Deque_size other = 0"
        "Deque_size this = 1" "op_index 0 (h', this) = None"
    by (auto split: bind_splits)
  from c have "other = b" by (auto simp add: copy_assign_def split: bind_splits)
  with v(3) have b: "Deque_size b = 0" by simp
  have a1: "at 0 (h, a) = Returns 1 (h, a)"
    using v(1,2) by (simp add: at_def Deque_size_def)
  have t1: "at 0 (h', this) = Undefined"
    using v(4,5) by (simp add: at_def Deque_size_def)
  have "\<forall>indeterminate.
        Deque_size (snd (Deque_move indeterminate a)) = 1 \<and>
        op_index 0 (h, snd (Deque_move indeterminate a)) = None \<and>
        at 0 (h, snd (Deque_move indeterminate a)) = Undefined"
    using v(2)
    by (simp add: Deque_move_def Deque_size_def at_def op_index_def element_def cell_ptr_def
        map_slot_def Let_def)
  with s s0 c v b a1 t1 show ?thesis by blast
qed

section \<open>Out-of-range conditions\<close>

text \<open>
  Claim C7. \<^verbatim>\<open>at(i)\<close> throws exactly when \<open>i \<ge> size()\<close>, \<^verbatim>\<open>pop_back()\<close> and
  \<^verbatim>\<open>pop_front()\<close> throw exactly when the container is empty, the exception is
  \<^verbatim>\<open>std::out_of_range\<close>, and the state the throw leaves behind (free store and object)
  is the state before the call.
\<close>

theorem out_of_range_signals:
  "((\<exists>e s'. at index s = Throws e s') \<longleftrightarrow> index \<ge> Deque_size (snd s)) \<and>
   ((\<exists>e s'. pop_back s = Throws e s') \<longleftrightarrow> Deque_empty (snd s)) \<and>
   ((\<exists>e s'. pop_front s = Throws e s') \<longleftrightarrow> Deque_empty (snd s)) \<and>
   (\<forall>e s'. at index s = Throws e s' \<or> pop_back s = Throws e s' \<or> pop_front s = Throws e s'
      \<longrightarrow> e = out_of_range \<and> s' = s)"
proof -
  obtain h d where s: "s = (h, d)" by (cases s)
  have a: "at index s = Throws e s' \<longleftrightarrow> index \<ge> Deque_size d \<and> e = out_of_range \<and> s' = s" for e s'
    by (auto simp add: at_def s Deque_size_def split: option.splits)
  have b: "pop_back s = Throws e s' \<longleftrightarrow> Deque_empty d \<and> e = out_of_range \<and> s' = s" for e s'
    by (auto simp add: pop_back_def s Let_def split: option.splits)
  have f: "pop_front s = Throws e s' \<longleftrightarrow> Deque_empty d \<and> e = out_of_range \<and> s' = s" for e s'
    by (auto simp add: pop_front_def s split: option.splits)
  show ?thesis
    unfolding a b f using s by auto
qed

text \<open>
  A default-constructed container is empty: both pops and \<^verbatim>\<open>at(0)\<close> throw and leave
  it as it was.
\<close>

lemma default_probe:
  "map_option (\<lambda>(h, d). Deque_empty d) (Deque_default (empty_heap :: int heap)) = Some True"
  by code_simp

theorem out_of_range_signals_witness:
  "\<exists>s. Deque_default (empty_heap :: int heap) = Some s \<and> Deque_empty (snd s) \<and>
     Deque_size (snd s) \<le> 0 \<and>
     pop_back s = Throws out_of_range s \<and> pop_front s = Throws out_of_range s \<and>
     at 0 s = Throws out_of_range s"
proof -
  from default_probe obtain s
    where s: "Deque_default (empty_heap :: int heap) = Some s" and e: "Deque_empty (snd s)"
    by auto
  then have z: "Deque_size (snd s) \<le> 0"
    by (simp add: Deque_empty_def Deque_size_def)
  note T = out_of_range_signals [of 0 s]
  from T e obtain e1 s1 where "pop_back s = Throws e1 s1" by blast
  with T have b: "pop_back s = Throws out_of_range s" by blast
  from T e obtain e2 s2 where "pop_front s = Throws e2 s2" by blast
  with T have f: "pop_front s = Throws out_of_range s" by blast
  from T z obtain e3 s3 where "at 0 s = Throws e3 s3" by blast
  with T have a: "at 0 s = Throws out_of_range s" by blast
  from s e z b f a show ?thesis by blast
qed

section \<open>Crossing a block boundary while removing\<close>

lemma pop_front_boundary:
  assumes r: "pop_front (h, d) = Returns () (h', d')" and o: "m_start_offset d + 1 = BLOCK_SIZE"
  shows "\<exists>m sl a. m_map d = Some m \<and> map_store h m = Some sl \<and> unat (m_start_block d) < length sl
           \<and> sl ! unat (m_start_block d) = Some a \<and> block_store h a \<noteq> None
           \<and> block_store h' a = None
           \<and> map_store h' = (map_store h)(m \<mapsto> sl[unat (m_start_block d) := None])
           \<and> (\<forall>b. b \<noteq> a \<longrightarrow> block_store h' b = block_store h b)
           \<and> m_map d' = m_map d \<and> m_start_block d' = m_start_block d + 1 \<and> m_start_offset d' = 0"
proof -
  from r o obtain h1 d1 h3 d3
    where de: "destroy_at (m_start_block d) (m_start_offset d) (h, d) = Some (h1, d1)"
      and fr: "deallocate_block (m_start_block d) (h1, d1\<lparr>m_start_offset := BLOCK_SIZE\<rparr>) = Some (h3, d3)"
      and fin: "h' = h3" "d' = d3\<lparr>m_start_block := m_start_block d3 + 1, m_start_offset := 0, m_size := m_size d3 - 1\<rparr>"
    by (auto simp add: pop_front_def Let_def destroy_at_def split: if_splits option.splits bind_splits)
  from destroy_at_frame [OF de] obtain c
    where d1: "d1 = d" and m1: "map_store h1 = map_store h"
      and c: "cell_ptr h (m_map d) (m_start_block d) (m_start_offset d) = Some c"
      and h1: "h1 = write_cell h c None"
    by blast
  from cell_ptr_SomeD [OF c] obtain m sl cs
    where m: "m_map d = Some m" "map_store h m = Some sl" "unat (m_start_block d) < length sl"
      "sl ! unat (m_start_block d) = Some (fst c)" "block_store h (fst c) = Some cs"
    by blast
  have b1: "block_store h1 (fst c) \<noteq> None"
    using m by (simp add: h1 write_cell_dom)
  from fr m m1 b1 have h3: "d3 = d\<lparr>m_start_offset := BLOCK_SIZE\<rparr>"
      "map_store h3 = (map_store h)(m \<mapsto> sl[unat (m_start_block d) := None])"
      "block_store h3 = (block_store h1)(fst c := None)"
    by (auto simp add: deallocate_block_def d1 map_slot_def delete_block_def set_map_slot_def
        split: bind_splits option.splits if_splits)
  have "\<forall>b. b \<noteq> fst c \<longrightarrow> block_store h' b = block_store h b"
    by (simp add: fin h3 h1 write_cell_other)
  then show ?thesis
    using m by (simp add: fin h3)
qed

lemma pop_back_boundary:
  assumes r: "pop_back (h, d) = Returns () (h', d')" and o: "m_finish_offset d = 0"
  shows "map_store h' = map_store h \<and> m_map d' = m_map d
           \<and> (\<forall>b. block_store h' b = None \<longleftrightarrow> block_store h b = None)
           \<and> (\<exists>a. map_slot h (m_map d) (m_finish_block d - 1) = Some (Some a)
                 \<and> (\<forall>b. b \<noteq> a \<longrightarrow> block_store h' b = block_store h b))
           \<and> m_finish_block d' = m_finish_block d - 1 \<and> m_finish_offset d' = BLOCK_SIZE - 1"
proof -
  let ?d1 = "d\<lparr>m_finish_block := m_finish_block d - 1, m_finish_offset := BLOCK_SIZE - 1\<rparr>"
  from r o obtain h2 d2
    where de: "destroy_at (m_finish_block d - 1) (BLOCK_SIZE - 1) (h, ?d1) = Some (h2, d2)"
      and fin: "h' = h2" "d' = d2\<lparr>m_size := m_size d2 - 1\<rparr>"
    by (auto simp add: pop_back_def Let_def split: if_splits option.splits)
  from destroy_at_frame [OF de] obtain c
    where d2: "d2 = ?d1" and m2: "map_store h2 = map_store h"
      and c: "cell_ptr h (m_map d) (m_finish_block d - 1) (BLOCK_SIZE - 1) = Some c"
      and h2: "h2 = write_cell h c None"
    by auto
  from c have "map_slot h (m_map d) (m_finish_block d - 1) = Some (Some (fst c))"
    by (auto simp add: cell_ptr_def split: option.splits if_splits)
  moreover have "\<forall>b. b \<noteq> fst c \<longrightarrow> block_store h' b = block_store h b"
    by (simp add: fin h2 write_cell_other)
  ultimately show ?thesis
    by (auto simp add: fin d2 m2 h2 write_cell_dom)
qed

text \<open>
  Claim C8. When \<^verbatim>\<open>pop_front()\<close> returns and has stepped \<open>start_offset\<close> to 64, the
  Block of the old \<open>start_block\<close> has been freed and its Map slot is null; no other Map
  slot and no other Block has changed. When \<^verbatim>\<open>pop_back()\<close> returns and has stepped back
  from \<open>finish_offset = 0\<close>, no Map slot has changed and no Block has been freed (the slot
  of the vacated block is what it was, and so is every other one); only the Block of the
  destroyed element has changed.
\<close>

theorem pop_block_boundary:
  "(pop_front (h, d) = Returns () (h', d') \<and> m_start_offset d + 1 = BLOCK_SIZE \<longrightarrow>
      (\<exists>m sl a. m_map d = Some m \<and> map_store h m = Some sl \<and> unat (m_start_block d) < length sl
           \<and> sl ! unat (m_start_block d) = Some a \<and> block_store h a \<noteq> None
           \<and> block_store h' a = None
           \<and> map_store h' = (map_store h)(m \<mapsto> sl[unat (m_start_block d) := None])
           \<and> (\<forall>b. b \<noteq> a \<longrightarrow> block_store h' b = block_store h b)
           \<and> m_map d' = m_map d \<and> m_start_block d' = m_start_block d + 1 \<and> m_start_offset d' = 0)) \<and>
   (pop_back (h, d) = Returns () (h'', d'') \<and> m_finish_offset d = 0 \<longrightarrow>
      map_store h'' = map_store h \<and> m_map d'' = m_map d
           \<and> (\<forall>b. block_store h'' b = None \<longleftrightarrow> block_store h b = None)
           \<and> (\<exists>a. map_slot h (m_map d) (m_finish_block d - 1) = Some (Some a)
                 \<and> (\<forall>b. b \<noteq> a \<longrightarrow> block_store h'' b = block_store h b))
           \<and> m_finish_block d'' = m_finish_block d - 1 \<and> m_finish_offset d'' = BLOCK_SIZE - 1)"
  using pop_front_boundary [of h d h' d'] pop_back_boundary [of h d h'' d''] by blast

text \<open>
  After one \<^verbatim>\<open>push_front\<close> on a default-constructed container the element sits in the
  last cell of block 3 and \<open>finish\<close> is the first cell of block 4, so either pop crosses
  a block boundary.
\<close>

lemma one_push_front_probe:
  "map_option (\<lambda>(h, d). (m_start_block d, m_start_offset d, m_finish_block d, m_finish_offset d,
        (case pop_front (h, d) of Returns u s \<Rightarrow> True | _ \<Rightarrow> False),
        (case pop_back (h, d) of Returns u s \<Rightarrow> True | _ \<Rightarrow> False),
        block_allocated (h, d) 3, block_allocated (h, d) 4))
     (Deque_default (empty_heap :: int heap) \<bind> push_front 1)
   = Some (3, 63, 4, 0, True, True, True, True)"
  by code_simp

theorem pop_block_boundary_witness:
  "\<exists>h d h' d' h'' d''. Deque_default (empty_heap :: int heap) \<bind> push_front 1 = Some (h, d) \<and>
     pop_front (h, d) = Returns () (h', d') \<and> m_start_offset d + 1 = BLOCK_SIZE \<and>
     pop_back (h, d) = Returns () (h'', d'') \<and> m_finish_offset d = 0 \<and>
     block_allocated (h, d) 3 \<and> \<not> block_allocated (h', d') 3 \<and>
     block_allocated (h, d) 4 \<and> block_allocated (h'', d'') 4 \<and> block_allocated (h'', d'') 3"
proof -
  from one_push_front_probe obtain h d
    where s: "Deque_default (empty_heap :: int heap) \<bind> push_front 1 = Some (h, d)"
      and c: "m_start_block d = 3" "m_start_offset d = 63" "m_finish_block d = 4" "m_finish_offset d = 0"
      and pf: "(case pop_front (h, d) of Returns u s \<Rightarrow> True | _ \<Rightarrow> False)"
      and pb: "(case pop_back (h, d) of Returns u s \<Rightarrow> True | _ \<Rightarrow> False)"
      and al: "block_allocated (h, d) 3" "block_allocated (h, d) 4"
    by auto
  from pf obtain h' d' where f: "pop_front (h, d) = Returns () (h', d')"
    by (auto split: outcome.splits)
  from pb obtain h'' d'' where b: "pop_back (h, d) = Returns () (h'', d'')"
    by (auto split: outcome.splits)
  have o: "m_start_offset d + 1 = BLOCK_SIZE" by (simp add: c)
  note T = pop_block_boundary [of h d h' d' h'' d'']
  from T f o obtain m sl a
    where F: "m_map d = Some m" "map_store h m = Some sl" "unat (m_start_block d) < length sl"
      "sl ! unat (m_start_block d) = Some a" "block_store h' a = None"
      "map_store h' = (map_store h)(m \<mapsto> sl[unat (m_start_block d) := None])"
      "\<forall>b. b \<noteq> a \<longrightarrow> block_store h' b = block_store h b" "m_map d' = m_map d"
    by blast
  from T b c(4) have B: "map_store h'' = map_store h" "m_map d'' = m_map d"
      "\<forall>b. block_store h'' b = None \<longleftrightarrow> block_store h b = None"
    by blast+
  have u3: "unat (3 :: size_t) = 3" and u4: "unat (4 :: size_t) = 4" by simp_all
  have n3: "\<not> block_allocated (h', d') 3"
    using F c(1) by (simp add: block_allocated_def map_slot_def u3)
  have k: "block_allocated (h'', d'') 4" "block_allocated (h'', d'') 3"
    using al B by (auto simp add: block_allocated_def map_slot_def split: option.splits if_splits)
  from s f o b c(4) al n3 k show ?thesis by blast
qed

section \<open>Containers grown by \<^verbatim>\<open>push_back\<close>\<close>

text \<open>
  What \<^verbatim>\<open>reallocate_map\<close>, \<^verbatim>\<open>allocate_block\<close>, placement new and \<^verbatim>\<open>push_back\<close> do to the
  fields of the object.
\<close>

lemma reallocate_map_fields:
  assumes "reallocate_map add_to_front (h, d) = Some (h', d')"
  shows "m_finish_block d' - m_start_block d' = m_finish_block d - m_start_block d"
    and "m_start_offset d' = m_start_offset d" and "m_finish_offset d' = m_finish_offset d"
    and "m_size d' = m_size d"
  using assms by (auto simp add: reallocate_map_def Let_def new_map_def split: bind_splits)

lemma allocate_block_fields:
  assumes "allocate_block i (h, d) = Some (h', d')"
  shows "d' = d"
  using assms by (auto simp add: allocate_block_def Let_def new_block_def split: bind_splits)

lemma construct_at_fields:
  assumes "construct_at block offset v (h, d) = Some (h', d')"
  shows "d' = d"
  using assms by (auto simp add: construct_at_def split: bind_splits)

lemma push_back_fields:
  assumes "push_back v (h, d) = Some (h', d')"
  shows "m_size d' = m_size d + 1 \<and> m_start_offset d' = m_start_offset d \<and>
     (if m_finish_offset d = BLOCK_SIZE
      then m_finish_block d' - m_start_block d' = m_finish_block d - m_start_block d + 1 \<and>
           m_finish_offset d' = 1
      else m_finish_block d' - m_start_block d' = m_finish_block d - m_start_block d \<and>
           m_finish_offset d' = m_finish_offset d + 1)"
proof (cases "m_finish_offset d = BLOCK_SIZE")
  case False
  with assms show ?thesis
    by (auto simp add: push_back_def dest!: construct_at_fields split: bind_splits)
next
  case True
  from assms True obtain h1 d1 where r: "(if m_finish_block d + 1 \<ge> m_map_size d
        then reallocate_map False (h, d) else Some (h, d)) = Some (h1, d1)"
    by (auto simp add: push_back_def split: bind_splits)
  then have f1: "m_finish_block d1 - m_start_block d1 = m_finish_block d - m_start_block d"
      "m_start_offset d1 = m_start_offset d" "m_size d1 = m_size d"
    by (auto dest: reallocate_map_fields split: if_splits)
  from assms True r have "d' = d1\<lparr>m_finish_block := m_finish_block d1 + 1, m_finish_offset := 1,
      m_size := m_size d1 + 1\<rparr>"
    by (auto simp add: push_back_def dest!: construct_at_fields allocate_block_fields
        split: bind_splits if_splits)
  with f1 True show ?thesis
    by (simp add: algebra_simps)
qed

lemma push_back_in_block:
  assumes "map_slot h (m_map d) (m_finish_block d) = Some (Some a)"
    and "block_store h a = Some cs" and "unat (m_finish_offset d) < length cs"
    and "m_finish_offset d \<noteq> BLOCK_SIZE"
  shows "push_back v (h, d) =
     Some (h\<lparr>block_store := (block_store h)(a \<mapsto> cs[unat (m_finish_offset d) := Some v])\<rparr>,
           d\<lparr>m_finish_offset := m_finish_offset d + 1, m_size := m_size d + 1\<rparr>)"
  using assms by (simp add: push_back_def construct_at_def cell_ptr_def write_cell_def)



























section \<open>Clearing\<close>



















section \<open>Iterator arithmetic\<close>

text \<open>
  Where \<open>_offset + n\<close> does not wrap, \<^verbatim>\<open>operator+\<close> is what repeated \<^verbatim>\<open>operator++\<close>
  gives.
\<close>

lemma Iterator_plus_forward:
  assumes "unat (it_offset it) + unat n < 2 ^ 64"
  shows "Iterator_plus it n =
     \<lparr>it_map_ptr = it_map_ptr it,
      it_block = it_block it + of_nat ((unat (it_offset it) + unat n) div 64),
      it_offset = of_nat ((unat (it_offset it) + unat n) mod 64)\<rparr>"
  by (simp add: Iterator_plus_def Let_def index_div_mod [OF assms])

lemma Iterator_plus_is_walk:
  assumes "unat (it_offset it) + unat n < 2 ^ 64" and "it_offset it < BLOCK_SIZE"
  shows "Iterator_plus it n = (Iterator_inc ^^ unat n) it"
proof (cases it)
  case (fields m b off)
  with assms(2) have "unat off < 64"
    by (simp add: word_less_nat_alt)
  from Iterator_inc_funpow_begin [OF this, of "unat n" m b] Iterator_plus_forward [OF assms(1)] fields
  show ?thesis by simp
qed

text \<open>
  Claim C2 says that \<open>it + n\<close> lands on block \<open>b + floor((o + n) / 64)\<close> with offset
  \<open>(o + n) mod 64\<close>, also for negative \<open>n\<close>. From block 4, offset 0, one step back should
  be block 3, offset 63. The code divides the negative \<^verbatim>\<open>offset\<close> as an unsigned number
  and its test \<^verbatim>\<open>off < 0\<close> on a \<^verbatim>\<open>size_type\<close> never holds: the offset comes out as 63, the
  block as \<open>4 + 2^58 - 1\<close>. \<^verbatim>\<open>operator-\<close> and the \<^verbatim>\<open>Const_Iterator\<close> do the same.
\<close>

theorem Iterator_plus_step_back:
  "Iterator_plus \<lparr>it_map_ptr = Some 0, it_block = 4, it_offset = 0\<rparr> (- 1)
     = \<lparr>it_map_ptr = Some 0, it_block = 288230376151711747, it_offset = 63\<rparr> \<and>
   Iterator_minus \<lparr>it_map_ptr = Some 0, it_block = 4, it_offset = 0\<rparr> 1
     = \<lparr>it_map_ptr = Some 0, it_block = 288230376151711747, it_offset = 63\<rparr> \<and>
   Const_Iterator_plus \<lparr>cit_map_ptr = Some 0, cit_block = 4, cit_offset = 0\<rparr> (- 1)
     = \<lparr>cit_map_ptr = Some 0, cit_block = 288230376151711747, cit_offset = 63\<rparr> \<and>
   Const_Iterator_minus \<lparr>cit_map_ptr = Some 0, cit_block = 4, cit_offset = 0\<rparr> 1
     = \<lparr>cit_map_ptr = Some 0, cit_block = 288230376151711747, cit_offset = 63\<rparr> \<and>
   Iterator_dec \<lparr>it_map_ptr = Some 0, it_block = 4, it_offset = 0\<rparr>
     = \<lparr>it_map_ptr = Some 0, it_block = 3, it_offset = 63\<rparr>"
  by (simp add: Iterator_plus_def Iterator_minus_def Const_Iterator_plus_def
      Const_Iterator_minus_def Iterator_dec_def)

section \<open>Moving and copying\<close>

text \<open>
  The copy constructor delegates to \<^verbatim>\<open>Deque()\<close> and then walks \<^verbatim>\<open>other\<close> with
  \<^verbatim>\<open>Const_Iterator\<close>, whose \<^verbatim>\<open>operator*\<close> is written \<^verbatim>\<open>(*_map_ptr)[_block][_offset]\<close>:
  it subscripts an element, which is ill-formed for \<^verbatim>\<open>int\<close> and has no counterpart
  over an arbitrary element type. It is left out; copy assignment, which reads
  \<^verbatim>\<open>other\<close> with \<^verbatim>\<open>operator[]\<close>, is modelled above.
\<close>

lemma push_back_null_map:
  assumes "m_map d = None" and "m_finish_offset d \<noteq> BLOCK_SIZE"
  shows "push_back v (h, d) = None"
  using assms by (simp add: push_back_def construct_at_def cell_ptr_def map_slot_def)

lemma clear_null_map:
  assumes "m_map d = None" and "\<not> Deque_empty d"
  shows "clear (h, d) = None"
proof -
  from assms(2) have "unat (m_size d) \<noteq> 0"
    by (simp add: Deque_empty_def unat_eq_zero)
  then obtain n where n: "unat (m_size d) = Suc n"
    by (cases "unat (m_size d)") simp_all
  show ?thesis
    using assms
    by (simp add: clear_def n clear_destroy_step_def destroy_at_def cell_ptr_def map_slot_def)
qed

lemma Deque_move_source:
  "snd (Deque_move indeterminate other) =
     \<lparr>m_map = None, m_size = m_size other, m_map_size = 0, m_start_block = 0,
      m_start_offset = 0, m_finish_block = 0, m_finish_offset = 0\<rparr>"
  by (simp add: Deque_move_def)

text \<open>
  The size equation is a relation between the fields alone. The default constructor
  establishes it, and \<^verbatim>\<open>push_back\<close>, \<^verbatim>\<open>push_front\<close>, \<^verbatim>\<open>pop_back\<close>, \<^verbatim>\<open>pop_front\<close> and
  \<^verbatim>\<open>clear\<close> keep it, in the arithmetic of \<^verbatim>\<open>size_t\<close>.
\<close>

lemma push_back_size_equation:
  assumes "push_back v (h, d) = Some (h', d')" and "size_equation d"
  shows "size_equation d'"
proof -
  note f = push_back_fields [OF assms(1)]
  from assms(2) have s: "m_size d =
      (m_finish_block d - m_start_block d) * BLOCK_SIZE + m_finish_offset d - m_start_offset d"
    by (simp add: size_equation_def)
  show ?thesis
  proof (cases "m_finish_offset d = BLOCK_SIZE")
    case True
    with f have sz: "m_size d' = m_size d + 1"
      and span: "m_finish_block d' - m_start_block d' = m_finish_block d - m_start_block d + 1"
      and fo: "m_finish_offset d' = 1" and so: "m_start_offset d' = m_start_offset d"
      by simp_all
    show ?thesis
      unfolding size_equation_def sz span fo so s using True by (simp add: ring_distribs)
  next
    case False
    with f have sz: "m_size d' = m_size d + 1"
      and span: "m_finish_block d' - m_start_block d' = m_finish_block d - m_start_block d"
      and fo: "m_finish_offset d' = m_finish_offset d + 1" and so: "m_start_offset d' = m_start_offset d"
      by simp_all
    show ?thesis
      unfolding size_equation_def sz span fo so s by (simp add: ring_distribs)
  qed
qed

lemma push_front_fields:
  assumes "push_front v (h, d) = Some (h', d')"
  shows "m_size d' = m_size d + 1 \<and> m_finish_offset d' = m_finish_offset d \<and>
     (if m_start_offset d = 0
      then m_finish_block d' - m_start_block d' = m_finish_block d - m_start_block d + 1 \<and>
           m_start_offset d' = BLOCK_SIZE - 1
      else m_finish_block d' - m_start_block d' = m_finish_block d - m_start_block d \<and>
           m_start_offset d' = m_start_offset d - 1)"
proof (cases "m_start_offset d = 0")
  case False
  with assms show ?thesis
    by (auto simp add: push_front_def dest!: construct_at_fields split: bind_splits)
next
  case True
  from assms True obtain h1 d1 where r: "(if m_start_block d = 0
        then reallocate_map True (h, d) else Some (h, d)) = Some (h1, d1)"
    by (auto simp add: push_front_def split: bind_splits)
  then have f1: "m_finish_block d1 - m_start_block d1 = m_finish_block d - m_start_block d"
      "m_finish_offset d1 = m_finish_offset d" "m_size d1 = m_size d"
    by (auto dest: reallocate_map_fields split: if_splits)
  from assms True r have "d' = d1\<lparr>m_start_block := m_start_block d1 - 1, m_start_offset := BLOCK_SIZE - 1,
      m_size := m_size d1 + 1\<rparr>"
    by (auto simp add: push_front_def dest!: construct_at_fields allocate_block_fields
        split: bind_splits if_splits)
  with f1 True show ?thesis
    by (simp add: algebra_simps)
qed

lemma push_front_size_equation:
  assumes "push_front v (h, d) = Some (h', d')" and "size_equation d"
  shows "size_equation d'"
proof -
  note f = push_front_fields [OF assms(1)]
  from assms(2) have s: "m_size d =
      (m_finish_block d - m_start_block d) * BLOCK_SIZE + m_finish_offset d - m_start_offset d"
    by (simp add: size_equation_def)
  show ?thesis
  proof (cases "m_start_offset d = 0")
    case True
    with f have sz: "m_size d' = m_size d + 1"
      and span: "m_finish_block d' - m_start_block d' = m_finish_block d - m_start_block d + 1"
      and fo: "m_finish_offset d' = m_finish_offset d" and so: "m_start_offset d' = BLOCK_SIZE - 1"
      by simp_all
    show ?thesis
      unfolding size_equation_def sz span fo so s using True by (simp add: ring_distribs)
  next
    case False
    with f have sz: "m_size d' = m_size d + 1"
      and span: "m_finish_block d' - m_start_block d' = m_finish_block d - m_start_block d"
      and fo: "m_finish_offset d' = m_finish_offset d" and so: "m_start_offset d' = m_start_offset d - 1"
      by simp_all
    show ?thesis
      unfolding size_equation_def sz span fo so s by (simp add: ring_distribs)
  qed
qed

lemma pop_back_size_equation:
  assumes "pop_back (h, d) = Returns () (h', d')" and "size_equation d"
  shows "size_equation d'"
  using assms
  by (auto simp add: pop_back_def size_equation_def Let_def algebra_simps
      dest!: destroy_at_frame(1) split: if_splits option.splits)

lemma pop_front_size_equation:
  assumes "pop_front (h, d) = Returns () (h', d')" and "size_equation d"
  shows "size_equation d'"
  using assms
  by (auto simp add: pop_front_def size_equation_def Let_def deallocate_block_def algebra_simps
      dest!: destroy_at_frame(1) split: if_splits option.splits bind_splits)

lemma clear_size_equation:
  assumes "clear (h, d) = Some (h', d')" and "size_equation d"
  shows "size_equation d'"
proof (cases "Deque_empty d")
  case True
  with assms show ?thesis by (simp add: clear_def)
next
  case False
  with assms(1) show ?thesis
    by (auto simp add: clear_def size_equation_def allocate_map_eq Let_def split: bind_splits)
qed

lemma Deque_default_size_equation:
  assumes "Deque_default h = Some (h', d')"
  shows "size_equation d'"
  using assms by (auto simp add: Deque_default_eq size_equation_def)

text \<open>
  The same operations keep \<open>start_offset\<close> inside its block, which is what indexed
  access relies on.
\<close>

lemma start_offset_in_block:
  "Deque_default h = Some (h', d') \<Longrightarrow> m_start_offset d' < BLOCK_SIZE"
  "push_back v (h, d) = Some (h', d') \<Longrightarrow> m_start_offset d < BLOCK_SIZE \<Longrightarrow> m_start_offset d' < BLOCK_SIZE"
  "push_front v (h, d) = Some (h', d') \<Longrightarrow> m_start_offset d < BLOCK_SIZE \<Longrightarrow> m_start_offset d' < BLOCK_SIZE"
  "pop_back (h, d) = Returns () (h', d') \<Longrightarrow> m_start_offset d < BLOCK_SIZE \<Longrightarrow> m_start_offset d' < BLOCK_SIZE"
  "pop_front (h, d) = Returns () (h', d') \<Longrightarrow> m_start_offset d < BLOCK_SIZE \<Longrightarrow> m_start_offset d' < BLOCK_SIZE"
  "clear (h, d) = Some (h', d') \<Longrightarrow> m_start_offset d < BLOCK_SIZE \<Longrightarrow> m_start_offset d' < BLOCK_SIZE"
proof -
  show "Deque_default h = Some (h', d') \<Longrightarrow> m_start_offset d' < BLOCK_SIZE"
    by (auto simp add: Deque_default_eq)
  show "push_back v (h, d) = Some (h', d') \<Longrightarrow> m_start_offset d < BLOCK_SIZE \<Longrightarrow> m_start_offset d' < BLOCK_SIZE"
    using push_back_fields [of v h d h' d'] by simp
  show "push_front v (h, d) = Some (h', d') \<Longrightarrow> m_start_offset d < BLOCK_SIZE \<Longrightarrow> m_start_offset d' < BLOCK_SIZE"
  proof -
    assume p: "push_front v (h, d) = Some (h', d')" and b: "m_start_offset d < BLOCK_SIZE"
    show ?thesis
    proof (cases "m_start_offset d = 0")
      case True
      with push_front_fields [OF p] show ?thesis by simp
    next
      case False
      with push_front_fields [OF p] have "m_start_offset d' = m_start_offset d - 1" by simp
      moreover have "m_start_offset d - 1 < m_start_offset d"
        using False by (simp add: word_less_nat_alt unat_minus_one unat_gt_0)
      ultimately show ?thesis using b by simp
    qed
  qed
  show "pop_back (h, d) = Returns () (h', d') \<Longrightarrow> m_start_offset d < BLOCK_SIZE \<Longrightarrow> m_start_offset d' < BLOCK_SIZE"
    by (auto simp add: pop_back_def Let_def dest!: destroy_at_frame(1) split: if_splits option.splits)
  show "pop_front (h, d) = Returns () (h', d') \<Longrightarrow> m_start_offset d < BLOCK_SIZE \<Longrightarrow> m_start_offset d' < BLOCK_SIZE"
  proof -
    assume p: "pop_front (h, d) = Returns () (h', d')" and b: "m_start_offset d < BLOCK_SIZE"
    have "unat (m_start_offset d) < 64" using b by (simp add: word_less_nat_alt)
    then have u: "unat (m_start_offset d + 1) = unat (m_start_offset d) + 1"
      by (simp add: unat_word_ariths)
    have "m_start_offset d + 1 \<noteq> BLOCK_SIZE \<Longrightarrow> m_start_offset d + 1 < BLOCK_SIZE"
      using b u by (auto simp add: word_less_nat_alt word_unat_eq_iff)
    with p show ?thesis
      by (auto simp add: pop_front_def Let_def deallocate_block_def
          dest!: destroy_at_frame(1) split: if_splits option.splits bind_splits)
  qed
  show "clear (h, d) = Some (h', d') \<Longrightarrow> m_start_offset d < BLOCK_SIZE \<Longrightarrow> m_start_offset d' < BLOCK_SIZE"
    by (cases "Deque_empty d")
       (auto simp add: clear_def allocate_map_eq Let_def split: bind_splits)
qed

lemma one_element_size_probe:
  "map_option (\<lambda>(h, d). (Deque_size d, size_equation d))
     (Deque_default (empty_heap :: int heap) \<bind> push_back 1) = Some (1, True)"
  by code_simp

text \<open>
  Claim C3 says that \<open>size == (finish_block - start_block) * 64 + finish_offset -
  start_offset\<close> holds in every state the public operations reach. A container that
  holds one element satisfies it. After it has been the source of a move construction,
  the object has its cursors zeroed and its \<^verbatim>\<open>_size\<close> still 1, whatever the new object's
  uninitialised \<^verbatim>\<open>_size\<close> held.
\<close>

theorem moved_from_breaks_size_equation:
  "\<exists>h d. Deque_default (empty_heap :: int heap) \<bind> push_back 1 = Some (h, d) \<and> size_equation d \<and>
     (\<forall>indeterminate.
        snd (Deque_move indeterminate d) =
          \<lparr>m_map = None, m_size = 1, m_map_size = 0, m_start_block = 0,
           m_start_offset = 0, m_finish_block = 0, m_finish_offset = 0\<rparr> \<and>
        \<not> size_equation (snd (Deque_move indeterminate d)))"
proof -
  from one_element_size_probe obtain h d
    where s: "Deque_default (empty_heap :: int heap) \<bind> push_back 1 = Some (h, d)"
      and v: "Deque_size d = 1" "size_equation d"
    by auto
  from v(1) have "m_size d = 1" by (simp add: Deque_size_def)
  then have "\<forall>indeterminate.
        snd (Deque_move indeterminate d) =
          \<lparr>m_map = None, m_size = 1, m_map_size = 0, m_start_block = 0,
           m_start_offset = 0, m_finish_block = 0, m_finish_offset = 0\<rparr> \<and>
        \<not> size_equation (snd (Deque_move indeterminate d))"
    by (simp add: Deque_move_source size_equation_def)
  with s v show ?thesis by blast
qed

lemma move_assign_probe:
  "do { (h, d) \<leftarrow> Deque_default (empty_heap :: int heap) \<bind> push_back 1;
        (h0, d0) \<leftarrow> Deque_default h;
        (h1, this, other) \<leftarrow> move_assign h0 d0 d;
        Some (Deque_size this, Deque_size other, Deque_empty other, m_map other,
              m_finish_offset other, op_index 0 (h1, this)) }
   = Some (1, 0, True, None, 0, Some 1)"
  by code_simp

text \<open>
  Claim C5 says that the source of a move is empty afterwards and can be used again.
  The source of a move construction from a container with one element still reports
  size 1; a \<^verbatim>\<open>push_back\<close> on it writes through the null Map, and so does \<^verbatim>\<open>clear()\<close>,
  which its destructor calls. The source of a move assignment reports size 0, and a
  \<^verbatim>\<open>push_back\<close> on it writes through the null Map too.
\<close>

theorem moved_from_not_reusable:
  "\<exists>h d. Deque_default (empty_heap :: int heap) \<bind> push_back 1 = Some (h, d) \<and>
     (\<forall>indeterminate.
        Deque_size (snd (Deque_move indeterminate d)) = 1 \<and>
        \<not> Deque_empty (snd (Deque_move indeterminate d)) \<and>
        push_back 7 (h, snd (Deque_move indeterminate d)) = None \<and>
        clear (h, snd (Deque_move indeterminate d)) = None) \<and>
     (\<exists>h0 d0 h1 this other. Deque_default h = Some (h0, d0) \<and>
        move_assign h0 d0 d = Some (h1, this, other) \<and>
        Deque_size other = 0 \<and> Deque_empty other \<and> push_back 7 (h1, other) = None)"
proof -
  from move_assign_probe obtain h d h0 d0 h1 this other
    where s: "Deque_default (empty_heap :: int heap) \<bind> push_back 1 = Some (h, d)"
      and s0: "Deque_default h = Some (h0, d0)"
      and m: "move_assign h0 d0 d = Some (h1, this, other)"
      and v: "Deque_size this = 1" "Deque_size other = 0" "Deque_empty other" "m_map other = None"
        "m_finish_offset other = 0"
    by (auto split: bind_splits)
  from one_element_size_probe s have "m_size d = 1"
    by (simp add: Deque_size_def)
  then have "\<forall>indeterminate.
        Deque_size (snd (Deque_move indeterminate d)) = 1 \<and>
        \<not> Deque_empty (snd (Deque_move indeterminate d)) \<and>
        push_back 7 (h, snd (Deque_move indeterminate d)) = None \<and>
        clear (h, snd (Deque_move indeterminate d)) = None"
    by (simp add: Deque_move_source Deque_size_def Deque_empty_def push_back_null_map
        clear_null_map)
  moreover have "push_back 7 (h1, other) = None"
    by (rule push_back_null_map) (simp_all add: v)
  ultimately show ?thesis
    using s s0 m v by blast
qed

lemma copy_assign_probe:
  "do { (h, a) \<leftarrow> Deque_default (empty_heap :: int heap) \<bind> push_back 1;
        (h0, b) \<leftarrow> Deque_default h;
        Some (Deque_size a, Deque_size b, Option.is_none (copy_assign h0 b a),
              map_option (\<lambda>(h', this, other). (Deque_size this, Deque_size other)) (copy_assign h0 a b)) }
   = Some (1, 0, True, Some (1, 0))"
  by code_simp

text \<open>
  Claim C6 says that copy assignment produces a container of the same size and
  contents. With \<open>a\<close> holding one element and \<open>b\<close> default-constructed, \<^verbatim>\<open>b = a\<close> writes
  through a null Block pointer in its first \<^verbatim>\<open>push_back\<close>, and \<^verbatim>\<open>a = b\<close> returns with
  \<open>a.size()\<close> still 1 although \<open>b.size()\<close> is 0.
\<close>

theorem copy_assign_not_a_copy:
  "\<exists>h a h0 b. Deque_default (empty_heap :: int heap) \<bind> push_back 1 = Some (h, a) \<and>
     Deque_default h = Some (h0, b) \<and> Deque_size a = 1 \<and> Deque_size b = 0 \<and>
     copy_assign h0 b a = None \<and>
     (\<exists>h' this other. copy_assign h0 a b = Some (h', this, other) \<and>
        Deque_size this = 1 \<and> Deque_size other = 0)"
proof -
  from copy_assign_probe obtain h a h0 b
    where s: "Deque_default (empty_heap :: int heap) \<bind> push_back 1 = Some (h, a)"
      and s0: "Deque_default h = Some (h0, b)"
      and v: "Deque_size a = 1" "Deque_size b = 0" "Option.is_none (copy_assign h0 b a)"
        "map_option (\<lambda>(h', this, other). (Deque_size this, Deque_size other)) (copy_assign h0 a b)
           = Some (1, 0)"
    by (auto split: bind_splits)
  from v(4) obtain h' this other
    where "copy_assign h0 a b = Some (h', this, other)" "Deque_size this = 1" "Deque_size other = 0"
    by auto
  with s s0 v show ?thesis
    by (auto simp add: Option.is_none_def)
qed

section \<open>Blocks of the live range\<close>

lemma live_range_probe:
  "map_option (\<lambda>s. (m_start_block (snd s), m_finish_block (snd s), live_range_allocated s,
        map_option (\<lambda>s'. (m_start_block (snd s'), m_finish_block (snd s'), Deque_size (snd s'),
            map_slot (fst s') (m_map (snd s')) 4, live_range_allocated s')) (clear s)))
     (Deque_default (empty_heap :: int heap) \<bind> push_back 1)
   = Some (4, 4, True, Some (4, 4, 0, Some None, False))"
  by code_simp

text \<open>
  Claim C9 says that in every reachable state each block index from \<open>start_block\<close> to
  \<open>finish_block\<close> owns a Block. It holds for a container with one element. After
  \<^verbatim>\<open>clear()\<close> on that container both cursors are at block 4 of the new Map, whose slot 4
  is null: \<^verbatim>\<open>clear()\<close> allocates the Map and, unlike the default constructor, no Block.
\<close>

theorem clear_leaves_range_unallocated:
  "\<exists>s s'. Deque_default (empty_heap :: int heap) \<bind> push_back 1 = Some s \<and>
     live_range_allocated s \<and> clear s = Some s' \<and>
     m_start_block (snd s') = 4 \<and> m_finish_block (snd s') = 4 \<and>
     map_slot (fst s') (m_map (snd s')) 4 = Some None \<and> \<not> live_range_allocated s'"
  using live_range_probe by auto

section \<open>Traversal up to the end iterator\<close>

lemma push_back_fill:
  assumes "map_slot h (m_map d) (m_finish_block d) = Some (Some a)"
    and "block_store h a = Some cs" and "length cs = 64"
    and "unat (m_finish_offset d) + n \<le> 64"
  shows "\<exists>h'. for_loop n i (\<lambda>_. push_back v) (h, d) =
           Some (h', d\<lparr>m_finish_offset := m_finish_offset d + of_nat n, m_size := m_size d + of_nat n\<rparr>)"
  using assms
proof (induction n arbitrary: h d cs i)
  case 0
  then show ?case by simp
next
  case (Suc n)
  let ?h1 = "h\<lparr>block_store := (block_store h)(a \<mapsto> cs[unat (m_finish_offset d) := Some v])\<rparr>"
  let ?d1 = "d\<lparr>m_finish_offset := m_finish_offset d + 1, m_size := m_size d + 1\<rparr>"
  from Suc.prems(4) have lt: "unat (m_finish_offset d) < 64" by simp
  then have ne: "m_finish_offset d \<noteq> BLOCK_SIZE" by auto
  have step: "push_back v (h, d) = Some (?h1, ?d1)"
    using Suc.prems(1,2) lt ne by (simp add: push_back_in_block Suc.prems(3))
  have u: "unat (m_finish_offset d + 1) = unat (m_finish_offset d) + 1"
    using lt by (simp add: unat_word_ariths)
  have "map_slot ?h1 (m_map d) (m_finish_block d) = map_slot h (m_map d) (m_finish_block d)"
    by (rule map_slot_cong) simp
  then have "map_slot ?h1 (m_map ?d1) (m_finish_block ?d1) = Some (Some a)"
    using Suc.prems(1) by simp
  moreover have "block_store ?h1 a = Some (cs[unat (m_finish_offset d) := Some v])"
    by simp
  moreover have "length (cs[unat (m_finish_offset d) := Some v]) = 64"
    using Suc.prems(3) by simp
  moreover have "unat (m_finish_offset ?d1) + n \<le> 64"
    using Suc.prems(4) by (simp add: u)
  ultimately obtain h' where
    "for_loop n (i + 1) (\<lambda>_. push_back v) (?h1, ?d1) =
       Some (h', ?d1\<lparr>m_finish_offset := m_finish_offset ?d1 + of_nat n, m_size := m_size ?d1 + of_nat n\<rparr>)"
    using Suc.IH by blast
  then show ?case
    by (simp add: step add.assoc add.commute)
qed

text \<open>
  Claim C10 says that \<^verbatim>\<open>begin()\<close> incremented \<open>size()\<close> times compares equal to
  \<^verbatim>\<open>end()\<close>, in particular when the last block is exactly filled. After 64 calls of
  \<^verbatim>\<open>push_back\<close> on a default-constructed container the size is 64 and \<open>finish\<close> is
  block 4, offset 64. 64 increments take \<^verbatim>\<open>begin()\<close> to block 5, offset 0, which
  \<^verbatim>\<open>operator==\<close> tells apart from \<^verbatim>\<open>end()\<close>.
\<close>

theorem full_block_end_unreached:
  "\<exists>h d. Deque_default (empty_heap :: int heap) \<bind> for_loop 64 0 (\<lambda>_. push_back 0) = Some (h, d) \<and>
     Deque_size d = 64 \<and>
     (Iterator_inc ^^ unat (Deque_size d)) (Deque_begin d)
       = \<lparr>it_map_ptr = Some 0, it_block = 5, it_offset = 0\<rparr> \<and>
     Deque_end d = \<lparr>it_map_ptr = Some 0, it_block = 4, it_offset = 64\<rparr> \<and>
     \<not> Iterator_eq ((Iterator_inc ^^ unat (Deque_size d)) (Deque_begin d)) (Deque_end d)"
proof -
  let ?d = "\<lparr>m_map = Some 0, m_size = 64, m_map_size = 8,
            m_start_block = 4, m_start_offset = 0, m_finish_block = 4, m_finish_offset = 64\<rparr>"
  obtain h0 d0 where dd: "Deque_default (empty_heap :: int heap) = Some (h0, d0)"
    and d0: "d0 = \<lparr>m_map = Some 0, m_size = 0, m_map_size = 8,
            m_start_block = 4, m_start_offset = 0, m_finish_block = 4, m_finish_offset = 0\<rparr>"
    and b0: "block_store h0 1 = Some (replicate 64 None)"
    and m0: "map_store h0 0 = Some ((replicate 8 None)[4 := Some 1])"
    by (simp add: Deque_default_eq empty_heap_def)
  have "map_slot h0 (m_map d0) (m_finish_block d0) = Some (Some 1)"
    by (simp add: map_slot_def d0 m0)
  moreover have "length (replicate 64 (None :: int option)) = 64" by simp
  moreover have "unat (m_finish_offset d0) + 64 \<le> 64" by (simp add: d0)
  ultimately obtain h where
    "for_loop 64 0 (\<lambda>_. push_back 0) (h0, d0) =
       Some (h, d0\<lparr>m_finish_offset := m_finish_offset d0 + of_nat 64, m_size := m_size d0 + of_nat 64\<rparr>)"
    using push_back_fill [OF _ b0, of d0 64 0 0] by blast
  then have run: "Deque_default (empty_heap :: int heap) \<bind> for_loop 64 0 (\<lambda>_. push_back 0) = Some (h, ?d)"
    by (simp add: dd d0)
  have walk: "(Iterator_inc ^^ unat (Deque_size ?d)) (Deque_begin ?d)
       = \<lparr>it_map_ptr = Some 0, it_block = 5, it_offset = 0\<rparr>"
    using Iterator_inc_funpow_begin [of 0 64 "Some 0" 4]
    by (simp add: Deque_size_def Deque_begin_def)
  have "Deque_end ?d = \<lparr>it_map_ptr = Some 0, it_block = 4, it_offset = 64\<rparr>"
    by (simp add: Deque_end_def)
  moreover have "\<not> Iterator_eq ((Iterator_inc ^^ unat (Deque_size ?d)) (Deque_begin ?d)) (Deque_end ?d)"
    unfolding walk by (simp add: Iterator_eq_def Deque_end_def)
  moreover have "Deque_size ?d = 64" by (simp add: Deque_size_def)
  ultimately show ?thesis
    using run walk by blast
qed

end
